theory Spec2Isabelle
  imports Main "HOL-Library.Word"
begin

section \<open>The local environment service of the NNI manager\<close>

text \<open>
  A shallow embedding of \<^verbatim>\<open>LocalEnvironmentService\<close>
  (\<^verbatim>\<open>training_service/reusable/environments/localEnvironmentService.ts\<close>).
  Every method becomes a function from the values it reads to the values it leaves
  behind: the result of the call (\<open>Inl\<close> an exception, \<open>Inr\<close> a normal return),
  the objects it mutates, and the list of calls it makes to the file system, the
  process utilities and the logger, in program order.
\<close>

subsection \<open>JavaScript strings\<close>

text \<open>
  A JavaScript string is a sequence of 16-bit code units. \<open>js\<close> writes an ASCII
  literal as such a sequence.
\<close>

type_synonym jschar = "16 word"

type_synonym jsstring = "jschar list"

definition js :: "string \<Rightarrow> jsstring" where
  "js s = map (\<lambda>c. of_nat (of_char c)) s"

text \<open>\<^verbatim>\<open>Array.prototype.join\<close> on an array of strings.\<close>

fun joinWith :: "jsstring \<Rightarrow> jsstring list \<Rightarrow> jsstring" where
  "joinWith sep [] = []"
| "joinWith sep [x] = x"
| "joinWith sep (x # y # ys) = x @ sep @ joinWith sep (y # ys)"

text \<open>
  The code units that \<^verbatim>\<open>String.prototype.trim\<close> strips and that \<^verbatim>\<open>\s\<close>
  matches in a regular expression: ECMAScript's WhiteSpace and LineTerminator.
  \<^verbatim>\<open>\d\<close> matches the ten ASCII digits only.
\<close>

definition isWhiteSpace :: "jschar \<Rightarrow> bool" where
  "isWhiteSpace c \<longleftrightarrow>
     c \<in> {0x09, 0x0A, 0x0B, 0x0C, 0x0D, 0x20, 0xA0, 0x1680,
          0x2028, 0x2029, 0x202F, 0x205F, 0x3000, 0xFEFF}
     \<or> (0x2000 \<le> c \<and> c \<le> 0x200A)"

definition isDigit :: "jschar \<Rightarrow> bool" where
  "isDigit c \<longleftrightarrow> 0x30 \<le> c \<and> c \<le> 0x39"

definition trim :: "jsstring \<Rightarrow> jsstring" where
  "trim s = rev (dropWhile isWhiteSpace (rev (dropWhile isWhiteSpace s)))"

text \<open>
  \<^verbatim>\<open>parseInt(code, 10)\<close> on a string of decimal digits, the only strings the service
  passes to it. JavaScript rounds the integer to a double; the service only compares
  the result with 0, and rounding sends no positive integer to 0, so the exact value
  is kept here.
\<close>

definition digitValue :: "jschar \<Rightarrow> nat" where
  "digitValue c = unat c - 48"

definition parseInt10 :: "jsstring \<Rightarrow> nat" where
  "parseInt10 s = foldl (\<lambda>acc c. 10 * acc + digitValue c) 0 s"

text \<open>
  The regular expression \<^verbatim>\<open>/^-?(\d+)\s+(\d+)$/\<close> of \<^verbatim>\<open>refreshEnvironmentsStatus\<close>,
  applied with \<^verbatim>\<open>String.prototype.match\<close>: \<open>None\<close> is JavaScript's \<^verbatim>\<open>null\<close>,
  \<open>Some (c, t)\<close> carries the two capture groups. The character classes of the
  pattern are disjoint and \<open>-\<close> is in none of them, so the greedy left-to-right
  reading below is the only way the pattern can match.
\<close>

definition matchReturnCode :: "jsstring \<Rightarrow> (jsstring \<times> jsstring) option" where
  "matchReturnCode s =
     (let s1 = (case s of [] \<Rightarrow> [] | c # cs \<Rightarrow> if c = 0x2D then cs else c # cs);
          code = takeWhile isDigit s1;
          s2 = dropWhile isDigit s1;
          gap = takeWhile isWhiteSpace s2;
          s3 = dropWhile isWhiteSpace s2
      in if code \<noteq> [] \<and> gap \<noteq> [] \<and> s3 \<noteq> [] \<and> list_all isDigit s3
         then Some (code, s3) else None)"

text \<open>
  The pattern in the specification's words, \<open><optional-sign><digits> <digits>\<close>:
  \<open>t\<close> is an optional minus sign, a non-empty run of digits \<open>c\<close>, a non-empty run
  of white space and a non-empty run of digits \<open>ts\<close>, and nothing else.
\<close>

definition exitCodeFormat :: "jsstring \<Rightarrow> jsstring \<Rightarrow> jsstring \<Rightarrow> bool" where
  "exitCodeFormat t c ts \<longleftrightarrow>
     (\<exists>sign gap. t = sign @ c @ gap @ ts \<and> (sign = [] \<or> sign = [0x2D])
        \<and> c \<noteq> [] \<and> list_all isDigit c
        \<and> gap \<noteq> [] \<and> list_all isWhiteSpace gap
        \<and> ts \<noteq> [] \<and> list_all isDigit ts)"

subsection \<open>The Node.js runtime\<close>

text \<open>
  \<^verbatim>\<open>process.platform\<close>: the service distinguishes \<^verbatim>\<open>'win32'\<close> and \<^verbatim>\<open>'darwin'\<close>;
  \<open>Linux\<close> stands for every other value.
\<close>

datatype platform = Win32 | Darwin | Linux

text \<open>
  The runtime the service runs on: the platform and the \<^verbatim>\<open>path.join\<close> of Node's
  \<^verbatim>\<open>path\<close> module for that platform.
\<close>

record runtime =
  platform :: platform
  path_join :: "jsstring list \<Rightarrow> jsstring"

text \<open>
  Node's \<^verbatim>\<open>path.posix.join\<close>, the \<^verbatim>\<open>path.join\<close> of every platform but win32:
  the non-empty arguments are joined with \<open>/\<close> and the result is normalized.
  Normalization reads the path segment by segment: an empty segment and \<open>.\<close> are
  dropped, \<open>..\<close> removes the segment before it (and is itself kept only in front of a
  relative path), a leading and a trailing \<open>/\<close> are kept.
\<close>

definition slash :: jschar where
  "slash = 0x2F"

fun splitOn :: "'a \<Rightarrow> 'a list \<Rightarrow> 'a list list" where
  "splitOn sep [] = [[]]"
| "splitOn sep (c # cs) =
     (if c = sep then [] # splitOn sep cs
      else (case splitOn sep cs of [] \<Rightarrow> [[c]] | s # ss \<Rightarrow> (c # s) # ss))"

definition normStep :: "bool \<Rightarrow> jsstring list \<Rightarrow> jsstring \<Rightarrow> jsstring list" where
  "normStep allowAboveRoot res seg =
     (if seg = [] \<or> seg = js ''.'' then res
      else if seg = js ''..'' then
        (if res \<noteq> [] \<and> last res \<noteq> js ''..'' then butlast res
         else if allowAboveRoot then res @ [js ''..''] else res)
      else res @ [seg])"

definition normalizeString :: "jsstring \<Rightarrow> bool \<Rightarrow> jsstring" where
  "normalizeString path allowAboveRoot =
     joinWith [slash] (foldl (normStep allowAboveRoot) [] (splitOn slash path))"

definition posix_normalize :: "jsstring \<Rightarrow> jsstring" where
  "posix_normalize path =
     (if path = [] then js ''.''
      else
        let isAbsolute = (hd path = slash);
            trailingSeparator = (last path = slash);
            p = normalizeString path (\<not> isAbsolute)
        in if p = [] then
             (if isAbsolute then [slash] else if trailingSeparator then js ''./'' else js ''.'')
           else (if isAbsolute then [slash] else []) @ p
                  @ (if trailingSeparator then [slash] else []))"

definition posix_join :: "jsstring list \<Rightarrow> jsstring" where
  "posix_join args =
     (let parts = filter (\<lambda>a. a \<noteq> []) args
      in if parts = [] then js ''.'' else posix_normalize (joinWith [slash] parts))"

subsection \<open>The data model\<close>

text \<open>
  Modelled from the spec: the class \<^verbatim>\<open>EnvironmentInformation\<close> is declared in
  \<^verbatim>\<open>../environment\<close>, which is not among the sources. The specification gives its
  fields (id, status, command, runnerWorkingFolder, trackingUrl, isAlive), the four
  values of the status, and a status-setting capability.
\<close>

datatype EnvironmentStatus = WAITING | RUNNING | SUCCEEDED | FAILED

record EnvironmentInformation =
  id_env :: jsstring
  status :: EnvironmentStatus
  command :: jsstring
  runnerWorkingFolder :: jsstring
  trackingUrl :: jsstring
  isAlive :: bool

definition setStatus :: "EnvironmentInformation \<Rightarrow> EnvironmentStatus \<Rightarrow> EnvironmentInformation" where
  "setStatus environment s = environment\<lparr>status := s\<rparr>"

text \<open>
  The value \<^verbatim>\<open>JSON.parse\<close> returns. A number is kept as the text of its literal.
\<close>

datatype json =
    JNull
  | JBool bool
  | JNumber jsstring
  | JString jsstring
  | JArray "json list"
  | JObject "(jsstring \<times> json) list"

text \<open>
  The fields of the service. \<open>None\<close> is JavaScript's \<^verbatim>\<open>undefined\<close>, the value of
  \<^verbatim>\<open>localTrialConfig\<close> until \<^verbatim>\<open>config\<close> assigns it. The constructor reads the
  experiment id and root directory from the experiment's startup information,
  taken here as its arguments.
\<close>

record LocalEnvironmentService =
  localTrialConfig :: "json option"
  experimentRootDir :: jsstring
  experimentId :: jsstring

definition constructor :: "jsstring \<Rightarrow> jsstring \<Rightarrow> LocalEnvironmentService" where
  "constructor expId rootDir =
     \<lparr>localTrialConfig = None, experimentRootDir = rootDir, experimentId = expId\<rparr>"

text \<open>The three getters of the service.\<close>

definition environmentMaintenceLoopInterval :: nat where
  "environmentMaintenceLoopInterval = 100"

definition hasStorageService :: bool where
  "hasStorageService = False"

definition getName :: jsstring where
  "getName = js ''local''"

text \<open>A JavaScript \<^verbatim>\<open>Error\<close> with its message.\<close>

datatype error = Error (message: jsstring)

text \<open>
  The calls the service makes to its collaborators: \<^verbatim>\<open>fs\<close>, the utilities
  \<^verbatim>\<open>isAlive\<close>, \<^verbatim>\<open>execMkdir\<close>, \<^verbatim>\<open>execCopydir\<close> and \<^verbatim>\<open>runScript\<close>, the package
  \<^verbatim>\<open>tree-kill\<close> and the logger. \<open>Tkill pid sig\<close> is the call
  \<^verbatim>\<open>tkill(Number(pid), sig)\<close>, with \<open>pid\<close> the text of the pid marker.
\<close>

datatype call =
    ExistsSync jsstring
  | ReadFile jsstring
  | IsAlive jsstring
  | ExecMkdir jsstring
  | ExecCopydir jsstring jsstring
  | WriteFile jsstring jsstring nat
  | RunScript jsstring
  | Tkill jsstring jsstring
  | LogError jsstring
  | LogDebug jsstring

text \<open>
  What the collaborators answer: whether a path exists, what reading a file
  gives (its content, or the exception the read is rejected with), whether the
  process of a pid marker is alive, whether creating a directory, copying a
  directory and writing a file succeed, and whether the call of \<^verbatim>\<open>tkill\<close> returns or
  throws at once. \<^verbatim>\<open>tkill\<close> is called without a callback and is not awaited: the
  signals are sent after the call has returned. \<open>signal_delivery\<close> is what becomes of
  them then (delivered, or failed, as for a process that is already gone); the
  service has no way to learn it. \<^verbatim>\<open>runScript\<close> starts the script and returns at once;
  the logger returns.
\<close>

record world =
  fs_existsSync :: "jsstring \<Rightarrow> bool"
  fs_readFile :: "jsstring \<Rightarrow> error + jsstring"
  utils_isAlive :: "jsstring \<Rightarrow> error + bool"
  util_execMkdir :: "jsstring \<Rightarrow> error + unit"
  util_execCopydir :: "jsstring \<Rightarrow> jsstring \<Rightarrow> error + unit"
  fs_writeFile :: "jsstring \<Rightarrow> jsstring \<Rightarrow> error + unit"
  tree_kill :: "jsstring \<Rightarrow> jsstring \<Rightarrow> error + unit"
  signal_delivery :: "jsstring \<Rightarrow> error + unit"

subsection \<open>Configuration intake\<close>

text \<open>
  Modelled from the spec: the enumeration \<^verbatim>\<open>TrialConfigMetadataKey\<close> is declared in
  \<^verbatim>\<open>../../common/trialConfigMetadataKey\<close>, which is not among the sources. The
  specification names the one recognized key "trial config".
\<close>

definition TRIAL_CONFIG :: jsstring where
  "TRIAL_CONFIG = js ''trial config''"

text \<open>
  \<^verbatim>\<open>config(key, value)\<close>. \<^verbatim>\<open>JSON.parse\<close> is the runtime's and is taken as an
  argument: it returns the parsed value or throws a syntax error.
\<close>

definition config ::
  "(jsstring \<Rightarrow> error + json) \<Rightarrow> LocalEnvironmentService \<Rightarrow> jsstring \<Rightarrow> jsstring
     \<Rightarrow> (error + unit) \<times> LocalEnvironmentService \<times> call list" where
  "config JSON_parse this key val =
     (if key = TRIAL_CONFIG then
        (case JSON_parse val of
           Inl e \<Rightarrow> (Inl e, this, [])
         | Inr v \<Rightarrow> (Inr (), this\<lparr>localTrialConfig := Some v\<rparr>, []))
      else
        (Inr (), this,
         [LogDebug (js ''Local mode does not proccess metadata key: '' @ [0x27] @ key
                      @ [0x27] @ js '', value: '' @ [0x27] @ val @ [0x27])]))"

subsection \<open>The status poller\<close>

text \<open>
  The two marker files of an environment, as \<^verbatim>\<open>refreshEnvironmentsStatus\<close> and
  \<^verbatim>\<open>stopEnvironment\<close> name them: \<^verbatim>\<open>path.join(environment.runnerWorkingFolder, 'pid')\<close>
  and \<^verbatim>\<open>path.join(environment.runnerWorkingFolder, 'code')\<close>.
\<close>

definition jobpidPath :: "runtime \<Rightarrow> EnvironmentInformation \<Rightarrow> jsstring" where
  "jobpidPath rt environment = path_join rt [runnerWorkingFolder environment, js ''pid'']"

definition runnerReturnCodeFilePath :: "runtime \<Rightarrow> EnvironmentInformation \<Rightarrow> jsstring" where
  "runnerReturnCodeFilePath rt environment =
     path_join rt [runnerWorkingFolder environment, js ''code'']"

text \<open>
  The body of the callback that \<^verbatim>\<open>refreshEnvironmentsStatus\<close> runs for one
  environment: the environment as the callback leaves it, and the calls it makes.
  Every exception raised inside the \<^verbatim>\<open>try\<close> block ends in the \<^verbatim>\<open>catch\<close> clause,
  which logs it.
\<close>

definition updateJobStatusException :: "error \<Rightarrow> call" where
  "updateJobStatusException e =
     LogError (js ''Update job status exception, error is '' @ message e)"

definition refreshEnvironment ::
  "runtime \<Rightarrow> world \<Rightarrow> EnvironmentInformation \<Rightarrow> EnvironmentInformation \<times> call list" where
  "refreshEnvironment rt w environment =
     (let running = environment\<lparr>status := RUNNING\<rparr>;
          t1 = [ExistsSync (jobpidPath rt environment), ReadFile (jobpidPath rt environment)];
          t3 = [ExistsSync (runnerReturnCodeFilePath rt environment)];
          t4 = t3 @ [ReadFile (runnerReturnCodeFilePath rt environment)]
      in if \<not> fs_existsSync w (jobpidPath rt environment)
         then (environment, [ExistsSync (jobpidPath rt environment)])
         else
           (case fs_readFile w (jobpidPath rt environment) of
              Inl e \<Rightarrow> (environment, t1 @ [updateJobStatusException e])
            | Inr pid \<Rightarrow>
                (case utils_isAlive w pid of
                   Inl e \<Rightarrow> (environment, t1 @ [IsAlive pid, updateJobStatusException e])
                 | Inr alive \<Rightarrow>
                     if alive then (running, t1 @ [IsAlive pid])
                     else if \<not> fs_existsSync w (runnerReturnCodeFilePath rt environment)
                     then (running, t1 @ [IsAlive pid] @ t3)
                     else
                       (case fs_readFile w (runnerReturnCodeFilePath rt environment) of
                          Inl e \<Rightarrow>
                            (running, t1 @ [IsAlive pid] @ t4 @ [updateJobStatusException e])
                        | Inr runnerReturnCode \<Rightarrow>
                            (case matchReturnCode (trim runnerReturnCode) of
                               None \<Rightarrow> (running, t1 @ [IsAlive pid] @ t4)
                             | Some (code, ts) \<Rightarrow>
                                 if parseInt10 code = 0
                                 then (setStatus running SUCCEEDED, t1 @ [IsAlive pid] @ t4)
                                 else (setStatus running FAILED, t1 @ [IsAlive pid] @ t4))))))"

text \<open>
  \<^verbatim>\<open>refreshEnvironmentsStatus\<close> starts the callback for every environment of the
  array and awaits none of them; an exception that leaves a callback rejects a promise
  nobody holds. The model gives the environments once every callback has run to its
  end, and the calls in the order of the array.
\<close>

definition refreshEnvironmentsStatus ::
  "runtime \<Rightarrow> world \<Rightarrow> EnvironmentInformation list
     \<Rightarrow> (error + unit) \<times> EnvironmentInformation list \<times> call list" where
  "refreshEnvironmentsStatus rt w environments =
     (Inr (),
      map (\<lambda>environment. fst (refreshEnvironment rt w environment)) environments,
      concat (map (\<lambda>environment. snd (refreshEnvironment rt w environment)) environments))"

text \<open>A sequence of polls, each against the answers its calls get.\<close>

fun polls :: "runtime \<Rightarrow> world list \<Rightarrow> EnvironmentInformation list \<Rightarrow> EnvironmentInformation list" where
  "polls rt [] environments = environments"
| "polls rt (w # ws) environments =
     polls rt ws (fst (snd (refreshEnvironmentsStatus rt w environments)))"

subsection \<open>The script generator\<close>

text \<open>
  Modelled from the spec: \<^verbatim>\<open>getNewLine\<close> and \<^verbatim>\<open>getScriptName\<close> are utilities of
  \<^verbatim>\<open>common/utils\<close> and \<^verbatim>\<open>training_service/common/util\<close>, which are not among the
  sources. The specification has the statements joined with the platform's line
  terminator and the script written to a file with the platform's extension.
\<close>

definition getNewLine :: "runtime \<Rightarrow> jsstring" where
  "getNewLine rt = (if platform rt = Win32 then [0x0D, 0x0A] else [0x0A])"

definition getScriptName :: "runtime \<Rightarrow> jsstring \<Rightarrow> jsstring" where
  "getScriptName rt fileNamePrefix =
     fileNamePrefix @ (if platform rt = Win32 then js ''.ps1'' else js ''.sh'')"

text \<open>
  \<^verbatim>\<open>getScript(environment)\<close>: the statements of the launch script, and the
  environment as the call leaves it (the win32 branch assigns its \<^verbatim>\<open>command\<close>).
\<close>

definition trialRunnerCommand :: "EnvironmentInformation \<Rightarrow> jsstring" where
  "trialRunnerCommand environment =
     js ''cd envs'' @ [0x5C] @ id_env environment
       @ js '' && python -m nni.tools.trial_tool.trial_runner''"

definition getScript ::
  "runtime \<Rightarrow> LocalEnvironmentService \<Rightarrow> EnvironmentInformation
     \<Rightarrow> jsstring list \<times> EnvironmentInformation" where
  \<open>getScript rt this environment =
     (if platform rt = Win32 then
        let environment' = environment\<lparr>command := trialRunnerCommand environment\<rparr>
        in ([js ''cd $env:'' @ experimentRootDir this,
             js ''New-Item -ItemType "directory" -Path ''
               @ path_join rt [experimentRootDir this, js ''envs'', id_env environment]
               @ js '' -Force'',
             js ''cmd.exe /c '' @ command environment' @ js '' --job_pid_file ''
               @ path_join rt [runnerWorkingFolder environment', js ''pid'']
               @ js '' 2>&1 | Out-File "''
               @ path_join rt [runnerWorkingFolder environment', js ''trial_runner.log'']
               @ js ''" -encoding utf8'',
             js ''$NOW_DATE = [int64](([datetime]::UtcNow)-(get-date "1/1/1970")).TotalSeconds'',
             js ''$NOW_DATE = "$NOW_DATE" + (Get-Date -Format fff).ToString()'',
             js ''Write $LASTEXITCODE " " $NOW_DATE  | Out-File "''
               @ path_join rt [runnerWorkingFolder environment', js ''code'']
               @ js ''" -NoNewline -encoding utf8''],
            environment')
      else
        ([js ''cd '' @ experimentRootDir this,
          js ''eval '' @ command environment @ js '' --job_pid_file ''
            @ runnerWorkingFolder environment @ js ''/pid 1>''
            @ runnerWorkingFolder environment @ js ''/trialrunner_stdout 2>''
            @ runnerWorkingFolder environment @ js ''/trialrunner_stderr"'',
          if platform rt = Darwin
          then js ''echo $? `date +%s999` >'' @ [0x27] @ runnerWorkingFolder environment
                 @ js ''/code'' @ [0x27]
          else js ''echo $? `date +%s%3N` >'' @ [0x27] @ runnerWorkingFolder environment
                 @ js ''/code'' @ [0x27]],
         environment))\<close>

subsection \<open>The lifecycle controller\<close>

text \<open>
  \<^verbatim>\<open>startEnvironment(environment)\<close>. Each awaited call that is rejected ends the
  method with that exception, after what the method has done so far.
  \<^verbatim>\<open>runScript\<close> is not awaited. The file mode \<^verbatim>\<open>0o777\<close> is 511.
\<close>

definition startEnvironment ::
  "runtime \<Rightarrow> world \<Rightarrow> LocalEnvironmentService \<Rightarrow> EnvironmentInformation
     \<Rightarrow> (error + unit) \<times> EnvironmentInformation \<times> call list" where
  "startEnvironment rt w this environment =
     (if localTrialConfig this = None then
        (Inl (Error (js ''Local trial config is not initialized'')), environment, [])
      else
        let localTempFolder =
              path_join rt [experimentRootDir this, experimentId this,
                            js ''environment-temp'', js ''envs''];
            localEnvCodeFolder = path_join rt [experimentRootDir this, js ''envs''];
            env1 = environment\<lparr>runnerWorkingFolder :=
                     path_join rt [localEnvCodeFolder, id_env environment]\<rparr>;
            env2 = snd (getScript rt this env1);
            env3 = env2\<lparr>command := joinWith (getNewLine rt) (fst (getScript rt this env1))\<rparr>;
            scriptName = getScriptName rt (js ''run'');
            scriptPath = path_join rt [localEnvCodeFolder, scriptName];
            t1 = [ExecMkdir (runnerWorkingFolder env1)];
            t2 = t1 @ [ExecCopydir localTempFolder localEnvCodeFolder];
            t3 = t2 @ [WriteFile scriptPath (command env3) 511]
        in (case util_execMkdir w (runnerWorkingFolder env1) of
              Inl e \<Rightarrow> (Inl e, env1, t1)
            | Inr u1 \<Rightarrow>
                (case util_execCopydir w localTempFolder localEnvCodeFolder of
                   Inl e \<Rightarrow> (Inl e, env1, t2)
                 | Inr u2 \<Rightarrow>
                     (case fs_writeFile w scriptPath (command env3) of
                        Inl e \<Rightarrow> (Inl e, env3, t3)
                      | Inr u3 \<Rightarrow>
                          (Inr (), env3\<lparr>trackingUrl := runnerWorkingFolder env3\<rparr>,
                           t3 @ [RunScript scriptPath])))))"

text \<open>
  \<^verbatim>\<open>stopEnvironment(environment)\<close>. The pid marker is read without a check that it
  exists and outside any \<^verbatim>\<open>try\<close>: a rejected read is the method's own rejection.
  The call of \<^verbatim>\<open>tkill\<close> is the last statement: the method returns as that call does.
\<close>

definition stopEnvironment ::
  "runtime \<Rightarrow> world \<Rightarrow> EnvironmentInformation \<Rightarrow> (error + unit) \<times> call list" where
  "stopEnvironment rt w environment =
     (if isAlive environment = False then (Inr (), [])
      else
        (case fs_readFile w (jobpidPath rt environment) of
           Inl e \<Rightarrow> (Inl e, [ReadFile (jobpidPath rt environment)])
         | Inr pid \<Rightarrow>
             (tree_kill w pid (js ''SIGKILL''),
              [ReadFile (jobpidPath rt environment), Tkill pid (js ''SIGKILL'')])))"

subsection \<open>Example values\<close>

text \<open>
  A POSIX runtime and a win32 runtime. The win32 example joins path segments with a
  backslash and nothing more; it stands in for \<^verbatim>\<open>path.win32.join\<close>, which is not
  modelled, and is used only where the joined paths play no part.
\<close>

definition linuxRuntime :: runtime where
  "linuxRuntime = \<lparr>platform = Linux, path_join = posix_join\<rparr>"

definition win32Runtime :: runtime where
  "win32Runtime = \<lparr>platform = Win32, path_join = joinWith [0x5C]\<rparr>"

text \<open>A freshly constructed service, and an environment that has been started on it.\<close>

definition service0 :: LocalEnvironmentService where
  "service0 = constructor (js ''exp1'') (js ''/exp'')"

definition env0 :: EnvironmentInformation where
  "env0 = \<lparr>id_env = js ''e1'', status = WAITING, command = js ''python3 trial.py'',
            runnerWorkingFolder = js ''/exp/envs/e1'', trackingUrl = [], isAlive = True\<rparr>"

definition ENOENT :: error where
  "ENOENT = Error (js ''ENOENT: no such file or directory'')"

definition EISDIR :: error where
  "EISDIR = Error (js ''EISDIR: illegal operation on a directory, read'')"

text \<open>
  The answers of a machine on which the working folder \<^verbatim>\<open>/exp/envs/e1\<close> holds the
  given pid marker and exit-code marker (\<open>None\<close>: no such file; \<open>Some (Inr c)\<close>: a
  file with content \<open>c\<close>; \<open>Some (Inl e)\<close>: an entry whose read is rejected with
  \<open>e\<close>), every liveness check answers \<open>alive\<close>, creating directories, copying
  and writing succeed, \<^verbatim>\<open>tkill\<close> returns and its signals are delivered.
\<close>

definition markers ::
  "(error + jsstring) option \<Rightarrow> error + bool \<Rightarrow> (error + jsstring) option \<Rightarrow> world" where
  "markers pid alive code =
     \<lparr>fs_existsSync = (\<lambda>p. (p = js ''/exp/envs/e1/pid'' \<and> pid \<noteq> None)
                             \<or> (p = js ''/exp/envs/e1/code'' \<and> code \<noteq> None)),
      fs_readFile = (\<lambda>p. if p = js ''/exp/envs/e1/pid''
                         then (case pid of None \<Rightarrow> Inl ENOENT | Some r \<Rightarrow> r)
                         else if p = js ''/exp/envs/e1/code''
                         then (case code of None \<Rightarrow> Inl ENOENT | Some r \<Rightarrow> r)
                         else Inl ENOENT),
      utils_isAlive = (\<lambda>p. alive),
      util_execMkdir = (\<lambda>p. Inr ()),
      util_execCopydir = (\<lambda>p q. Inr ()),
      fs_writeFile = (\<lambda>p c. Inr ()),
      tree_kill = (\<lambda>p s. Inr ()),
      signal_delivery = (\<lambda>p. Inr ())\<rparr>"

text \<open>A second environment, whose working folder holds no marker on that machine.\<close>

definition env2 :: EnvironmentInformation where
  "env2 = \<lparr>id_env = js ''e2'', status = RUNNING, command = js ''python3 trial.py'',
            runnerWorkingFolder = js ''/exp/envs/e2'', trackingUrl = [], isAlive = True\<rparr>"

text \<open>
  An example argument for \<^verbatim>\<open>JSON.parse\<close> in \<open>config\<close>: it agrees with
  \<^verbatim>\<open>JSON.parse\<close> on the text \<^verbatim>\<open>null\<close> and rejects every other text.
\<close>

definition parseOnlyNull :: "jsstring \<Rightarrow> error + json" where
  "parseOnlyNull s = (if s = js ''null'' then Inr JNull else Inl (Error (js ''SyntaxError'')))"

subsection \<open>Usable trial configurations\<close>

text \<open>
  Modelled from the spec: the class \<^verbatim>\<open>TrialConfig\<close> is declared in
  \<^verbatim>\<open>../../common/trialConfig\<close>, which is not among the sources. The specification
  gives it one field, \<^verbatim>\<open>command\<close>, a string. A parsed value is usable as a trial
  configuration when it is an object with such a field.
\<close>

definition usableTrialConfig :: "json \<Rightarrow> bool" where
  "usableTrialConfig v =
     (case v of
        JObject kvs \<Rightarrow>
          (case map_of kvs (js ''command'') of Some (JString c) \<Rightarrow> True | _ \<Rightarrow> False)
      | _ \<Rightarrow> False)"

subsection \<open>Polls that find the same markers\<close>


subsection \<open>Artifact paths\<close>






text \<open>The example service, configured.\<close>

definition service1 :: LocalEnvironmentService where
  "service1 = service0\<lparr>localTrialConfig :=
                Some (JObject [(js ''command'', JString (js ''python3 trial.py''))])\<rparr>"

section \<open>Properties\<close>

subsection \<open>Starting without a configuration\<close>

text \<open>
  Claim C3. If no trial configuration has been set when \<^verbatim>\<open>startEnvironment\<close> is
  called, the call fails with the configuration-missing error and makes no call to
  the file system or to any other collaborator: no directory is created, nothing is
  copied, no script is written or run, and the environment record is as it was.
\<close>

theorem startEnvironment_without_config:
  assumes "localTrialConfig this = None"
  shows "startEnvironment rt w this environment =
           (Inl (Error (js ''Local trial config is not initialized'')), environment, [])"
  using assms by (simp add: startEnvironment_def)

theorem startEnvironment_without_config_witness:
  "localTrialConfig service0 = None
   \<and> startEnvironment linuxRuntime (markers None (Inr False) None) service0 env0 =
       (Inl (Error (js ''Local trial config is not initialized'')), env0, [])"
proof -
  have h: "localTrialConfig service0 = None"
    by (simp add: service0_def constructor_def)
  from startEnvironment_without_config [OF h] show ?thesis
    using h by simp
qed

subsection \<open>Stopping an environment that is not alive\<close>

text \<open>
  Claim C8. \<^verbatim>\<open>stopEnvironment\<close> on an environment whose \<^verbatim>\<open>isAlive\<close> flag is false
  returns normally and makes no call at all: it reads no file and sends no signal.
  Hence a second stop adds nothing to the calls of the first, whatever the machine
  answers at either time.
\<close>

theorem stopEnvironment_not_alive:
  assumes "isAlive environment = False"
  shows "stopEnvironment rt w environment = (Inr (), [])
         \<and> snd (stopEnvironment rt w environment) @ snd (stopEnvironment rt w' environment)
             = snd (stopEnvironment rt w environment)"
  using assms by (simp add: stopEnvironment_def)

theorem stopEnvironment_not_alive_witness:
  "isAlive (env0\<lparr>isAlive := False\<rparr>) = False
   \<and> stopEnvironment linuxRuntime (markers (Some (Inr (js ''4242''))) (Inr True) None)
        (env0\<lparr>isAlive := False\<rparr>) = (Inr (), [])"
proof -
  have h: "isAlive (env0\<lparr>isAlive := False\<rparr>) = False" by simp
  from stopEnvironment_not_alive [OF h] show ?thesis
    using h by simp
qed

subsection \<open>Stopping an environment that is alive\<close>

text \<open>
  What \<^verbatim>\<open>stopEnvironment\<close> does on an environment whose \<^verbatim>\<open>isAlive\<close> flag is true. It
  reads the pid marker. If the read gives the marker's content, it calls \<^verbatim>\<open>tkill\<close>
  with that pid and \<^verbatim>\<open>SIGKILL\<close> and returns as that call returns. If the read is
  rejected, the method is rejected with the same exception and no signal is sent.
\<close>

lemma stopEnvironment_alive:
  assumes "isAlive environment"
  shows "(\<forall>pid. fs_readFile w (jobpidPath rt environment) = Inr pid
            \<longrightarrow> stopEnvironment rt w environment =
                  (tree_kill w pid (js ''SIGKILL''),
                   [ReadFile (jobpidPath rt environment), Tkill pid (js ''SIGKILL'')]))
         \<and> (\<forall>e. fs_readFile w (jobpidPath rt environment) = Inl e
            \<longrightarrow> stopEnvironment rt w environment = (Inl e, [ReadFile (jobpidPath rt environment)]))"
  using assms by (simp add: stopEnvironment_def)

text \<open>
  What becomes of the signals after the call of \<^verbatim>\<open>tkill\<close> has returned changes
  nothing of what \<^verbatim>\<open>stopEnvironment\<close> returns or calls: a failed delivery is not
  surfaced.
\<close>

lemma stopEnvironment_delivery:
  "stopEnvironment rt (w\<lparr>signal_delivery := d\<rparr>) environment = stopEnvironment rt w environment"
  by (simp add: stopEnvironment_def split: sum.splits)

text \<open>
  Claim C5. When \<^verbatim>\<open>stopEnvironment\<close> is called on an environment whose \<^verbatim>\<open>isAlive\<close>
  flag is true, it reads the pid marker and, if the marker is present, sends
  \<^verbatim>\<open>SIGKILL\<close> to the process tree of that pid; a missing pid marker or a failed
  signal is not surfaced as an error to the caller. The code does the first and
  keeps a failed signal to itself, but it does not keep a missing marker to itself:
  the marker is read without the existence check and outside the \<^verbatim>\<open>try\<close> that guard
  the same read in \<^verbatim>\<open>refreshEnvironmentsStatus\<close>. Here the environment is alive, no
  file \<^verbatim>\<open>/exp/envs/e1/pid\<close> exists, and the call is rejected with the exception of
  the read.
\<close>

theorem stopEnvironment_missing_marker_rejects:
  "isAlive env0
   \<and> \<not> fs_existsSync (markers None (Inr False) None) (jobpidPath linuxRuntime env0)
   \<and> stopEnvironment linuxRuntime (markers None (Inr False) None) env0 =
       (Inl ENOENT, [ReadFile (js ''/exp/envs/e1/pid'')])"
  by code_simp

subsection \<open>Polling an environment without a pid marker\<close>

text \<open>
  Claim C9. For every environment of the batch whose working folder holds no pid
  marker, \<^verbatim>\<open>refreshEnvironmentsStatus\<close> returns normally and leaves that environment
  as it was, its status included; the only call made for it is the check that the
  marker exists, so nothing is logged.
\<close>

theorem refresh_without_pid_marker:
  assumes "i < length environments"
    and "\<not> fs_existsSync w (jobpidPath rt (environments ! i))"
  shows "fst (refreshEnvironmentsStatus rt w environments) = Inr ()
         \<and> fst (snd (refreshEnvironmentsStatus rt w environments)) ! i = environments ! i
         \<and> snd (refreshEnvironment rt w (environments ! i))
             = [ExistsSync (jobpidPath rt (environments ! i))]"
  using assms by (simp add: refreshEnvironmentsStatus_def refreshEnvironment_def Let_def)

theorem refresh_without_pid_marker_witness:
  "(0::nat) < length [env0]
   \<and> \<not> fs_existsSync (markers None (Inr False) None) (jobpidPath linuxRuntime ([env0] ! 0))
   \<and> fst (refreshEnvironmentsStatus linuxRuntime (markers None (Inr False) None) [env0]) = Inr ()
   \<and> status (fst (snd (refreshEnvironmentsStatus linuxRuntime (markers None (Inr False) None) [env0])) ! 0)
       = WAITING"
proof -
  have h1: "(0::nat) < length [env0]" by simp
  have h2: "\<not> fs_existsSync (markers None (Inr False) None) (jobpidPath linuxRuntime ([env0] ! 0))"
    by code_simp
  have s: "status ([env0] ! 0) = WAITING" by (simp add: env0_def)
  from refresh_without_pid_marker [OF h1 h2] show ?thesis
    using h1 h2 s by simp
qed

subsection \<open>What the script generator does to the environment\<close>

text \<open>
  Claim C4, as the code has it. On every platform but win32 \<^verbatim>\<open>getScript\<close> leaves
  the environment record as it was. On win32 it assigns the field \<^verbatim>\<open>command\<close> (the
  command that changes into the environment's folder and starts the trial runner)
  and leaves every other field as it was. The generator takes no answer of the
  machine and returns no call: it writes no file and runs no process.
\<close>

theorem getScript_environment:
  "snd (getScript rt this environment) =
     (if platform rt = Win32 then environment\<lparr>command := trialRunnerCommand environment\<rparr>
      else environment)"
  by (simp add: getScript_def Let_def)

text \<open>
  The claim as it was stated fails on win32: the command of the environment is not
  the same after the script has been generated.
\<close>

theorem getScript_counterexample:
  "command env0 = js ''python3 trial.py''
   \<and> command (snd (getScript win32Runtime service0 env0)) =
       js ''cd envs'' @ [0x5C] @ js ''e1 && python -m nni.tools.trial_tool.trial_runner''"
  by code_simp

subsection \<open>Exceptions during a poll\<close>

text \<open>
  Claim C7, as the code has it. \<^verbatim>\<open>refreshEnvironmentsStatus\<close> returns normally
  whatever happens in the check of one environment, and every environment of the
  batch is left as its own check leaves it, whatever happens to the ones before and
  after it. An exception raised by the read of the pid marker or by the liveness
  check is logged and leaves the environment as it was. An exception raised by the
  read of the exit-code marker is logged as well, but by then the environment has
  been marked \<open>RUNNING\<close>, and so it stays.
\<close>

theorem refresh_exceptions_contained:
  "fst (refreshEnvironmentsStatus rt w (before @ environment # after)) = Inr ()
   \<and> fst (snd (refreshEnvironmentsStatus rt w (before @ environment # after))) =
       fst (snd (refreshEnvironmentsStatus rt w before))
         @ fst (refreshEnvironment rt w environment)
         # fst (snd (refreshEnvironmentsStatus rt w after))
   \<and> (\<forall>e. fs_existsSync w (jobpidPath rt environment)
            \<and> fs_readFile w (jobpidPath rt environment) = Inl e
        \<longrightarrow> fst (refreshEnvironment rt w environment) = environment
            \<and> last (snd (refreshEnvironment rt w environment)) = updateJobStatusException e)
   \<and> (\<forall>pid e. fs_existsSync w (jobpidPath rt environment)
            \<and> fs_readFile w (jobpidPath rt environment) = Inr pid
            \<and> utils_isAlive w pid = Inl e
        \<longrightarrow> fst (refreshEnvironment rt w environment) = environment
            \<and> last (snd (refreshEnvironment rt w environment)) = updateJobStatusException e)
   \<and> (\<forall>pid e. fs_existsSync w (jobpidPath rt environment)
            \<and> fs_readFile w (jobpidPath rt environment) = Inr pid
            \<and> utils_isAlive w pid = Inr False
            \<and> fs_existsSync w (runnerReturnCodeFilePath rt environment)
            \<and> fs_readFile w (runnerReturnCodeFilePath rt environment) = Inl e
        \<longrightarrow> fst (refreshEnvironment rt w environment) = environment\<lparr>status := RUNNING\<rparr>
            \<and> last (snd (refreshEnvironment rt w environment)) = updateJobStatusException e)"
  by (simp add: refreshEnvironmentsStatus_def refreshEnvironment_def Let_def)

theorem refresh_exceptions_contained_witness:
  "fs_existsSync (markers (Some (Inr (js ''4242''))) (Inr False) (Some (Inl EISDIR)))
     (jobpidPath linuxRuntime env0)
   \<and> fs_readFile (markers (Some (Inr (js ''4242''))) (Inr False) (Some (Inl EISDIR)))
       (jobpidPath linuxRuntime env0) = Inr (js ''4242'')
   \<and> utils_isAlive (markers (Some (Inr (js ''4242''))) (Inr False) (Some (Inl EISDIR)))
       (js ''4242'') = Inr False
   \<and> fs_existsSync (markers (Some (Inr (js ''4242''))) (Inr False) (Some (Inl EISDIR)))
       (runnerReturnCodeFilePath linuxRuntime env0)
   \<and> fs_readFile (markers (Some (Inr (js ''4242''))) (Inr False) (Some (Inl EISDIR)))
       (runnerReturnCodeFilePath linuxRuntime env0) = Inl EISDIR
   \<and> fst (refreshEnvironmentsStatus linuxRuntime
            (markers (Some (Inr (js ''4242''))) (Inr False) (Some (Inl EISDIR)))
            ([env2] @ env0 # [])) = Inr ()
   \<and> fst (refreshEnvironment linuxRuntime
            (markers (Some (Inr (js ''4242''))) (Inr False) (Some (Inl EISDIR))) env0)
       = env0\<lparr>status := RUNNING\<rparr>
   \<and> last (snd (refreshEnvironment linuxRuntime
                  (markers (Some (Inr (js ''4242''))) (Inr False) (Some (Inl EISDIR))) env0))
       = updateJobStatusException EISDIR
   \<and> fs_existsSync (markers (Some (Inl EISDIR)) (Inr False) None) (jobpidPath linuxRuntime env0)
   \<and> fs_readFile (markers (Some (Inl EISDIR)) (Inr False) None) (jobpidPath linuxRuntime env0)
       = Inl EISDIR
   \<and> fst (refreshEnvironment linuxRuntime (markers (Some (Inl EISDIR)) (Inr False) None) env0)
       = env0
   \<and> last (snd (refreshEnvironment linuxRuntime (markers (Some (Inl EISDIR)) (Inr False) None) env0))
       = updateJobStatusException EISDIR"
proof -
  let ?W = "markers (Some (Inr (js ''4242''))) (Inr False) (Some (Inl EISDIR))"
  let ?V = "markers (Some (Inl EISDIR)) (Inr False) None"
  have a1: "fs_existsSync ?W (jobpidPath linuxRuntime env0)" by code_simp
  have a2: "fs_readFile ?W (jobpidPath linuxRuntime env0) = Inr (js ''4242'')" by code_simp
  have a3: "utils_isAlive ?W (js ''4242'') = Inr False" by code_simp
  have a4: "fs_existsSync ?W (runnerReturnCodeFilePath linuxRuntime env0)" by code_simp
  have a5: "fs_readFile ?W (runnerReturnCodeFilePath linuxRuntime env0) = Inl EISDIR" by code_simp
  have b1: "fs_existsSync ?V (jobpidPath linuxRuntime env0)" by code_simp
  have b2: "fs_readFile ?V (jobpidPath linuxRuntime env0) = Inl EISDIR" by code_simp
  note W = refresh_exceptions_contained [of linuxRuntime ?W "[env2]" env0 "[]"]
  note V = refresh_exceptions_contained [of linuxRuntime ?V "[env2]" env0 "[]"]
  from W a1 a2 a3 a4 a5 have w:
    "fst (refreshEnvironmentsStatus linuxRuntime ?W ([env2] @ env0 # [])) = Inr ()
     \<and> fst (refreshEnvironment linuxRuntime ?W env0) = env0\<lparr>status := RUNNING\<rparr>
     \<and> last (snd (refreshEnvironment linuxRuntime ?W env0)) = updateJobStatusException EISDIR"
    by blast
  from V b1 b2 have v:
    "fst (refreshEnvironment linuxRuntime ?V env0) = env0
     \<and> last (snd (refreshEnvironment linuxRuntime ?V env0)) = updateJobStatusException EISDIR"
    by blast
  from a1 a2 a3 a4 a5 b1 b2 w v show ?thesis by blast
qed

text \<open>
  The claim as it was stated fails where the exit-code marker cannot be read: the
  environment was \<open>WAITING\<close>, the exception is caught and logged, and the
  environment is \<open>RUNNING\<close> after the poll.
\<close>

theorem refresh_exception_counterexample:
  "status env0 = WAITING
   \<and> refreshEnvironment linuxRuntime
        (markers (Some (Inr (js ''4242''))) (Inr False) (Some (Inl EISDIR))) env0
      = (env0\<lparr>status := RUNNING\<rparr>,
         [ExistsSync (js ''/exp/envs/e1/pid''), ReadFile (js ''/exp/envs/e1/pid''),
          IsAlive (js ''4242''), ExistsSync (js ''/exp/envs/e1/code''),
          ReadFile (js ''/exp/envs/e1/code''), updateJobStatusException EISDIR])"
  by code_simp

subsection \<open>A configuration that is not a trial configuration\<close>

text \<open>
  Claim C10. \<^verbatim>\<open>config\<close> stores whatever \<^verbatim>\<open>JSON.parse\<close> returns for the value of the
  trial-configuration key, whatever its shape, and \<^verbatim>\<open>startEnvironment\<close> only asks
  whether something has been stored: its first call creates the working folder, and
  on a machine where creating, copying and writing succeed it returns normally after
  its four calls. The parse of the text \<^verbatim>\<open>null\<close> is such a value, and it is not usable
  as a trial configuration.
\<close>

theorem config_unvalidated:
  assumes "JSON_parse val = Inr v"
  shows "config JSON_parse this TRIAL_CONFIG val = (Inr (), this\<lparr>localTrialConfig := Some v\<rparr>, [])
         \<and> (\<exists>rest. snd (snd (startEnvironment rt w (this\<lparr>localTrialConfig := Some v\<rparr>) environment))
                = ExecMkdir (path_join rt [path_join rt [experimentRootDir this, js ''envs''],
                                           id_env environment]) # rest)
         \<and> ((\<forall>p. util_execMkdir w p = Inr ()) \<and> (\<forall>p q. util_execCopydir w p q = Inr ())
              \<and> (\<forall>p c. fs_writeFile w p c = Inr ())
            \<longrightarrow> fst (startEnvironment rt w (this\<lparr>localTrialConfig := Some v\<rparr>) environment) = Inr ()
                \<and> length (snd (snd (startEnvironment rt w (this\<lparr>localTrialConfig := Some v\<rparr>)
                                     environment))) = 4)
         \<and> \<not> usableTrialConfig JNull"
  using assms
  by (auto simp add: config_def startEnvironment_def Let_def usableTrialConfig_def
      split: sum.splits)

theorem config_unvalidated_witness:
  "parseOnlyNull (js ''null'') = Inr JNull
   \<and> \<not> usableTrialConfig JNull
   \<and> config parseOnlyNull service0 TRIAL_CONFIG (js ''null'') =
       (Inr (), service0\<lparr>localTrialConfig := Some JNull\<rparr>, [])
   \<and> fst (startEnvironment linuxRuntime (markers None (Inr False) None)
            (service0\<lparr>localTrialConfig := Some JNull\<rparr>) env0) = Inr ()
   \<and> length (snd (snd (startEnvironment linuxRuntime (markers None (Inr False) None)
                         (service0\<lparr>localTrialConfig := Some JNull\<rparr>) env0))) = 4"
proof -
  let ?W = "markers None (Inr False) None"
  have h1: "parseOnlyNull (js ''null'') = Inr JNull" by (simp add: parseOnlyNull_def)
  have h3: "(\<forall>p. util_execMkdir ?W p = Inr ()) \<and> (\<forall>p q. util_execCopydir ?W p q = Inr ())
            \<and> (\<forall>p c. fs_writeFile ?W p c = Inr ())"
    by (simp add: markers_def)
  from config_unvalidated [of parseOnlyNull "js ''null''" JNull service0 linuxRuntime ?W env0]
    h1 h3
  show ?thesis by blast
qed

subsection \<open>The pattern of the exit-code marker\<close>

text \<open>
  The matcher that reads the regular expression from left to right accepts exactly
  the texts of the format the specification describes, with the same two groups.
\<close>

lemma digit_not_space: "isDigit c \<Longrightarrow> \<not> isWhiteSpace c"
  by (auto simp add: isDigit_def isWhiteSpace_def word_le_nat_alt)

lemma digit_not_minus: "isDigit c \<Longrightarrow> c \<noteq> 0x2D"
  by (auto simp add: isDigit_def)

lemma span_run:
  assumes "list_all P xs" and "ys = [] \<or> \<not> P (hd ys)"
  shows "takeWhile P (xs @ ys) = xs" and "dropWhile P (xs @ ys) = ys"
proof -
  from assms(1) have all: "\<forall>x\<in>set xs. P x" by (simp add: list_all_iff)
  from assms(2) have t: "takeWhile P ys = []" by (simp add: takeWhile_eq_Nil_iff)
  from assms(2) have d: "dropWhile P ys = ys" by (simp add: dropWhile_eq_self_iff)
  from all t show "takeWhile P (xs @ ys) = xs" by simp
  from all d show "dropWhile P (xs @ ys) = ys" by simp
qed

lemma matchReturnCode_complete:
  assumes "exitCodeFormat t c ts"
  shows "matchReturnCode t = Some (c, ts)"
proof -
  from assms obtain sign gap where t: "t = sign @ c @ gap @ ts"
    and sign: "sign = [] \<or> sign = [0x2D]"
    and c: "c \<noteq> []" "list_all isDigit c"
    and gap: "gap \<noteq> []" "list_all isWhiteSpace gap"
    and ts: "ts \<noteq> []" "list_all isDigit ts"
    unfolding exitCodeFormat_def by blast
  from c have hdc: "isDigit (hd c)" by (cases c) simp_all
  from gap have hdgap: "isWhiteSpace (hd gap)" by (cases gap) simp_all
  from ts have hdts: "isDigit (hd ts)" by (cases ts) simp_all
  have s1: "(case t of [] \<Rightarrow> [] | x # xs \<Rightarrow> if x = 0x2D then xs else x # xs) = c @ gap @ ts"
  proof (cases "sign = []")
    case True
    with t c(1) hdc digit_not_minus [of "hd c"] show ?thesis by (cases c) auto
  next
    case False
    with sign t show ?thesis by simp
  qed
  have ndig: "\<not> isDigit (hd (gap @ ts))"
    using gap(1) hdgap digit_not_space [of "hd gap"] by auto
  have nsp: "\<not> isWhiteSpace (hd ts)"
    using hdts digit_not_space by blast
  have a: "takeWhile isDigit (c @ gap @ ts) = c" "dropWhile isDigit (c @ gap @ ts) = gap @ ts"
    using span_run [OF c(2), of "gap @ ts"] ndig by simp_all
  have b: "takeWhile isWhiteSpace (gap @ ts) = gap" "dropWhile isWhiteSpace (gap @ ts) = ts"
    using span_run [OF gap(2), of ts] nsp by simp_all
  show ?thesis
    unfolding matchReturnCode_def s1 Let_def a b
    using c gap ts by simp
qed

lemma matchReturnCode_sound:
  assumes "matchReturnCode t = Some (c, ts)"
  shows "exitCodeFormat t c ts"
proof -
  define s1 where "s1 = (case t of [] \<Rightarrow> [] | x # xs \<Rightarrow> if x = 0x2D then xs else x # xs)"
  define s2 where "s2 = dropWhile isDigit s1"
  from assms have c: "c = takeWhile isDigit s1" and ts: "ts = dropWhile isWhiteSpace s2"
    and ne: "c \<noteq> []" "takeWhile isWhiteSpace s2 \<noteq> []" "ts \<noteq> []" and dts: "list_all isDigit ts"
    unfolding matchReturnCode_def s1_def s2_def Let_def
    by (auto split: if_splits)
  have "\<exists>sign. t = sign @ s1 \<and> (sign = [] \<or> sign = [0x2D])"
    unfolding s1_def by (cases t) auto
  then obtain sign where sg: "t = sign @ s1" "sign = [] \<or> sign = [0x2D]" by blast
  have "s1 = c @ s2" unfolding c s2_def by simp
  moreover have "s2 = takeWhile isWhiteSpace s2 @ ts" unfolding ts by simp
  ultimately have "t = sign @ c @ takeWhile isWhiteSpace s2 @ ts" using sg(1) by simp
  moreover have "list_all isDigit c"
    unfolding c list_all_iff by (auto dest: set_takeWhileD)
  moreover have "list_all isWhiteSpace (takeWhile isWhiteSpace s2)"
    unfolding list_all_iff by (auto dest: set_takeWhileD)
  ultimately show ?thesis
    unfolding exitCodeFormat_def using sg(2) ne dts by blast
qed

lemma matchReturnCode_iff: "matchReturnCode t = Some (c, ts) \<longleftrightarrow> exitCodeFormat t c ts"
  using matchReturnCode_sound matchReturnCode_complete by blast

lemma matchReturnCode_None_iff: "matchReturnCode t = None \<longleftrightarrow> (\<forall>c ts. \<not> exitCodeFormat t c ts)"
proof
  assume "matchReturnCode t = None"
  then show "\<forall>c ts. \<not> exitCodeFormat t c ts"
    using matchReturnCode_complete by fastforce
next
  assume a: "\<forall>c ts. \<not> exitCodeFormat t c ts"
  show "matchReturnCode t = None"
  proof (cases "matchReturnCode t")
    case None then show ?thesis .
  next
    case (Some p)
    then have "exitCodeFormat t (fst p) (snd p)" using matchReturnCode_sound [of t "fst p" "snd p"] by simp
    with a show ?thesis by blast
  qed
qed

subsection \<open>The exit-code marker decides the terminal status\<close>

text \<open>
  Claim C2, as the code has it. When a poll finds a pid marker whose process is no
  longer alive and the exit-code marker is present and readable, it matches the
  trimmed content of the marker against the pattern: an optional minus sign, digits,
  white space, digits. On a match the environment becomes \<open>SUCCEEDED\<close> when the
  number written in the first group is 0 and \<open>FAILED\<close> when it is any other
  number. When the content does not match, nothing is assigned after the mark set
  on reading the pid marker: the environment is \<open>RUNNING\<close>, whatever its status
  was before the poll. In every case the poll makes five calls and logs nothing.
\<close>

theorem refresh_exit_code:
  assumes "fs_existsSync w (jobpidPath rt environment)"
    and "fs_readFile w (jobpidPath rt environment) = Inr pid"
    and "utils_isAlive w pid = Inr False"
    and "fs_existsSync w (runnerReturnCodeFilePath rt environment)"
    and "fs_readFile w (runnerReturnCodeFilePath rt environment) = Inr content"
  shows "(\<forall>c ts. exitCodeFormat (trim content) c ts \<longrightarrow>
            fst (refreshEnvironment rt w environment) =
              environment\<lparr>status := (if parseInt10 c = 0 then SUCCEEDED else FAILED)\<rparr>)
         \<and> ((\<forall>c ts. \<not> exitCodeFormat (trim content) c ts) \<longrightarrow>
            fst (refreshEnvironment rt w environment) = environment\<lparr>status := RUNNING\<rparr>)
         \<and> snd (refreshEnvironment rt w environment) =
             [ExistsSync (jobpidPath rt environment), ReadFile (jobpidPath rt environment),
              IsAlive pid, ExistsSync (runnerReturnCodeFilePath rt environment),
              ReadFile (runnerReturnCodeFilePath rt environment)]"
proof (intro conjI allI impI)
  fix c ts
  assume "exitCodeFormat (trim content) c ts"
  then have "matchReturnCode (trim content) = Some (c, ts)" by (rule matchReturnCode_complete)
  with assms show "fst (refreshEnvironment rt w environment) =
      environment\<lparr>status := (if parseInt10 c = 0 then SUCCEEDED else FAILED)\<rparr>"
    by (simp add: refreshEnvironment_def Let_def setStatus_def)
next
  assume "\<forall>c ts. \<not> exitCodeFormat (trim content) c ts"
  then have "matchReturnCode (trim content) = None" by (simp add: matchReturnCode_None_iff)
  with assms show "fst (refreshEnvironment rt w environment) = environment\<lparr>status := RUNNING\<rparr>"
    by (simp add: refreshEnvironment_def Let_def)
next
  from assms show "snd (refreshEnvironment rt w environment) =
             [ExistsSync (jobpidPath rt environment), ReadFile (jobpidPath rt environment),
              IsAlive pid, ExistsSync (runnerReturnCodeFilePath rt environment),
              ReadFile (runnerReturnCodeFilePath rt environment)]"
    by (simp add: refreshEnvironment_def Let_def split: option.splits)
qed


theorem refresh_exit_code_witness:
  "fs_existsSync (markers (Some (Inr (js ''4242''))) (Inr False) (Some (Inr (js ''0 1700000000123''))))
     (jobpidPath linuxRuntime env0)
   \<and> fs_readFile (markers (Some (Inr (js ''4242''))) (Inr False) (Some (Inr (js ''0 1700000000123''))))
       (jobpidPath linuxRuntime env0) = Inr (js ''4242'')
   \<and> utils_isAlive (markers (Some (Inr (js ''4242''))) (Inr False) (Some (Inr (js ''0 1700000000123''))))
       (js ''4242'') = Inr False
   \<and> fs_existsSync (markers (Some (Inr (js ''4242''))) (Inr False) (Some (Inr (js ''0 1700000000123''))))
       (runnerReturnCodeFilePath linuxRuntime env0)
   \<and> fs_readFile (markers (Some (Inr (js ''4242''))) (Inr False) (Some (Inr (js ''0 1700000000123''))))
       (runnerReturnCodeFilePath linuxRuntime env0) = Inr (js ''0 1700000000123'')
   \<and> exitCodeFormat (trim (js ''0 1700000000123'')) (js ''0'') (js ''1700000000123'')
   \<and> fst (refreshEnvironment linuxRuntime
            (markers (Some (Inr (js ''4242''))) (Inr False) (Some (Inr (js ''0 1700000000123'')))) env0)
       = env0\<lparr>status := SUCCEEDED\<rparr>
   \<and> exitCodeFormat (trim (js ''2 1700000000123'')) (js ''2'') (js ''1700000000123'')
   \<and> fst (refreshEnvironment linuxRuntime
            (markers (Some (Inr (js ''4242''))) (Inr False) (Some (Inr (js ''2 1700000000123'')))) env0)
       = env0\<lparr>status := FAILED\<rparr>
   \<and> (\<forall>c ts. \<not> exitCodeFormat (trim (js ''Terminated'')) c ts)
   \<and> fst (refreshEnvironment linuxRuntime
            (markers (Some (Inr (js ''4242''))) (Inr False) (Some (Inr (js ''Terminated'')))) env0)
       = env0\<lparr>status := RUNNING\<rparr>"
proof -
  let ?W = "\<lambda>content. markers (Some (Inr (js ''4242''))) (Inr False) (Some (Inr content))"
  have a: "fs_existsSync (?W content) (jobpidPath linuxRuntime env0)"
    "fs_readFile (?W content) (jobpidPath linuxRuntime env0) = Inr (js ''4242'')"
    "utils_isAlive (?W content) (js ''4242'') = Inr False"
    "fs_existsSync (?W content) (runnerReturnCodeFilePath linuxRuntime env0)"
    "fs_readFile (?W content) (runnerReturnCodeFilePath linuxRuntime env0) = Inr content"
    for content
    by (simp_all add: markers_def jobpidPath_def runnerReturnCodeFilePath_def linuxRuntime_def
        env0_def posix_join_def posix_normalize_def normalizeString_def normStep_def js_def
        slash_def)
  have f0: "exitCodeFormat (trim (js ''0 1700000000123'')) (js ''0'') (js ''1700000000123'')"
    unfolding matchReturnCode_iff [symmetric] by code_simp
  have f2: "exitCodeFormat (trim (js ''2 1700000000123'')) (js ''2'') (js ''1700000000123'')"
    unfolding matchReturnCode_iff [symmetric] by code_simp
  have fn: "\<forall>c ts. \<not> exitCodeFormat (trim (js ''Terminated'')) c ts"
    unfolding matchReturnCode_None_iff [symmetric] by code_simp
  have p0: "parseInt10 (js ''0'') = 0" by code_simp
  have p2: "parseInt10 (js ''2'') \<noteq> 0" by code_simp
  note T0 = refresh_exit_code [OF a, of "js ''0 1700000000123''"]
  note T2 = refresh_exit_code [OF a, of "js ''2 1700000000123''"]
  note Tn = refresh_exit_code [OF a, of "js ''Terminated''"]
  from T0 f0 have "fst (refreshEnvironment linuxRuntime (?W (js ''0 1700000000123'')) env0)
       = env0\<lparr>status := (if parseInt10 (js ''0'') = 0 then SUCCEEDED else FAILED)\<rparr>" by blast
  with p0 have r0: "fst (refreshEnvironment linuxRuntime (?W (js ''0 1700000000123'')) env0)
       = env0\<lparr>status := SUCCEEDED\<rparr>" by simp
  from T2 f2 have "fst (refreshEnvironment linuxRuntime (?W (js ''2 1700000000123'')) env0)
       = env0\<lparr>status := (if parseInt10 (js ''2'') = 0 then SUCCEEDED else FAILED)\<rparr>" by blast
  with p2 have r2: "fst (refreshEnvironment linuxRuntime (?W (js ''2 1700000000123'')) env0)
       = env0\<lparr>status := FAILED\<rparr>" by simp
  from Tn fn have rn: "fst (refreshEnvironment linuxRuntime (?W (js ''Terminated'')) env0)
       = env0\<lparr>status := RUNNING\<rparr>" by blast
  from a [of "js ''0 1700000000123''"] f0 f2 fn r0 r2 rn show ?thesis by blast
qed

text \<open>
  The claim as it was stated has the status unchanged where the content does not
  match. An environment that was \<open>WAITING\<close> is \<open>RUNNING\<close> after such a poll.
\<close>

theorem refresh_mismatch_counterexample:
  "status env0 = WAITING
   \<and> matchReturnCode (trim (js ''Terminated'')) = None
   \<and> status (fst (refreshEnvironment linuxRuntime
                  (markers (Some (Inr (js ''4242''))) (Inr False) (Some (Inr (js ''Terminated''))))
                  env0)) = RUNNING"
  by code_simp

subsection \<open>The status over a sequence of polls\<close>







lemma refreshEnvironmentsStatus_length:
  "length (fst (snd (refreshEnvironmentsStatus rt w environments))) = length environments"
  by (simp add: refreshEnvironmentsStatus_def)


lemma polls_length: "length (polls rt ws environments) = length environments"
  by (induction ws arbitrary: environments) (simp_all add: refreshEnvironmentsStatus_length)

lemma polls_append: "polls rt (xs @ ys) environments = polls rt ys (polls rt xs environments)"
  by (induction xs arbitrary: environments) simp_all








subsection \<open>Joining plain segments\<close>





























subsection \<open>The artifact files of two environments\<close>



text \<open>
  Ids that are not plain segments can share their markers: the ids \<^verbatim>\<open>e1\<close> and
  \<^verbatim>\<open>e1/\<close> are distinct and give the same pid marker.
\<close>

lemma marker_paths_of_unplain_ids:
  "id_env env0 \<noteq> id_env (env0\<lparr>id_env := js ''e1/''\<rparr>)
   \<and> jobpidPath linuxRuntime
        (fst (snd (startEnvironment linuxRuntime (markers None (Inr False) None) service1 env0)))
       = jobpidPath linuxRuntime
           (fst (snd (startEnvironment linuxRuntime (markers None (Inr False) None) service1
                        (env0\<lparr>id_env := js ''e1/''\<rparr>))))"
  by code_simp


end
